theory Spec2Isabelle
  imports Main "HOL-Library.Sublist" "HOL-Library.Word"
begin

unbundle bit_operations_syntax

section \<open>Strings, environment and requests\<close>

text \<open>
  A Python \<open>str\<close> is modelled as a \<open>string\<close> whose characters are the code points
  below 256. This is exactly what Starlette delivers for header values (decoded as
  latin-1); environment values are restricted to the same range.
\<close>

definition is_space :: "char \<Rightarrow> bool" where
  \<comment> \<open>\<open>str.isspace\<close> on the code points below 256\<close>
  "is_space c = ((of_char c :: nat) \<in> {9, 10, 11, 12, 13, 28, 29, 30, 31, 32, 133, 160})"

definition py_strip :: "string \<Rightarrow> string" where
  \<comment> \<open>\<open>s.strip()\<close>\<close>
  "py_strip s = rev (dropWhile is_space (rev (dropWhile is_space s)))"

fun py_split :: "char \<Rightarrow> string \<Rightarrow> string list" where
  \<comment> \<open>\<open>s.split(c)\<close> for a one-character separator\<close>
  "py_split c [] = [[]]"
| "py_split c (x # xs) =
     (if x = c then [] # py_split c xs
      else (case py_split c xs of [] \<Rightarrow> [[x]] | w # ws \<Rightarrow> (x # w) # ws))"

definition first_field :: "char \<Rightarrow> string \<Rightarrow> string" where
  \<comment> \<open>\<open>s.split(c)[0]\<close>; the list is never empty, so the index never raises\<close>
  "first_field c s = (case py_split c s of [] \<Rightarrow> [] | w # _ \<Rightarrow> w)"

definition startswith :: "string \<Rightarrow> string \<Rightarrow> bool" where
  \<comment> \<open>\<open>s.startswith(p)\<close>\<close>
  "startswith s p = prefix p s"

definition falsy :: "string option \<Rightarrow> bool" where
  \<comment> \<open>\<open>not v\<close> for a value that is \<open>None\<close> or a \<open>str\<close>\<close>
  "falsy v = (case v of None \<Rightarrow> True | Some s \<Rightarrow> s = [])"

type_synonym environ = "string \<rightharpoonup> string"

definition getenv :: "environ \<Rightarrow> string \<Rightarrow> string \<Rightarrow> string" where
  \<comment> \<open>\<open>os.getenv(key, default)\<close>\<close>
  "getenv env k d = (case env k of None \<Rightarrow> d | Some v \<Rightarrow> v)"

text \<open>
  A request carries the transport peer (\<open>request.client.host\<close>, absent when
  \<open>request.client\<close> is \<open>None\<close>), its headers and the path of its URL. Header names
  are looked up under the spelling the source uses.
\<close>

record request =
  client :: "string option"
  headers :: "string \<rightharpoonup> string"
  url_path :: string

datatype http_exception = HTTPException (status_code: nat) (detail: string)

section \<open>Mail data and the events of a request\<close>

record attachment =
  filename :: string
  content :: string
  content_type :: "string option"

record email_request =
  subject :: string
  body :: string
  recipients :: "string list"
  attachments :: "attachment list option"
  is_html :: bool

record email_response =
  success :: bool
  message :: string
  timestamp :: string
  response_recipients :: "string list"

record mime_part =
  payload :: string
  disposition :: string
  part_type :: string

record mime_message =
  msg_from :: string
  msg_to :: string
  msg_subject :: string
  text_subtype :: string
  text_part :: string
  parts :: "mime_part list"

text \<open>
  The events a request leaves behind, in order: the calls and network actions the
  claims speak about. \<open>Smtp_connect ssl host port\<close> is the construction of
  \<open>smtplib.SMTP_SSL\<close> (\<open>ssl\<close> true) or \<open>smtplib.SMTP\<close>, which opens the connection.
\<close>

datatype event =
    Verify_ip_address string
  | Send_email
  | Decode_attachment string
  | Smtp_connect bool string int
  | Smtp_starttls
  | Smtp_login string string
  | Smtp_send_message mime_message

section \<open>Security configuration\<close>

definition get_allowed_ips :: "environ \<Rightarrow> string list" where
  "get_allowed_ips env =
     (let allowed_ips_str = getenv env ''ALLOWED_IPS'' ''''
      in if allowed_ips_str = [] then []
         else map py_strip (filter (\<lambda>ip. py_strip ip \<noteq> []) (py_split CHR '','' allowed_ips_str)))"

definition get_api_key :: "environ \<Rightarrow> string option" where
  "get_api_key env = env ''API_KEY''"

section \<open>The IP matcher\<close>

text \<open>
  Python's \<open>ipaddress\<close> module is not part of the repository. It is a parameter of the
  model: \<open>ip_address\<close> and \<open>ip_network\<close> (the latter called with \<open>strict=False\<close>)
  answer \<open>None\<close> where the module raises \<open>ValueError\<close>, and \<open>contains\<close> is the
  module's \<open>addr in network\<close>. Theorems that quantify over the module hold for whatever
  it parses.
\<close>

record ('a, 'n) ipaddress =
  ip_address :: "string \<Rightarrow> 'a option"
  ip_network :: "string \<Rightarrow> 'n option"
  contains :: "'n \<Rightarrow> 'a \<Rightarrow> bool"

fun allowed_loop :: "('a, 'n) ipaddress \<Rightarrow> string \<Rightarrow> string list \<Rightarrow> bool" where
  \<comment> \<open>the \<open>for allowed_ip in allowed_ips\<close> loop of \<open>verify_ip_address\<close>; a \<open>ValueError\<close>
      of either parse is caught and the loop continues\<close>
  "allowed_loop L client_ip [] = False"
| "allowed_loop L client_ip (allowed_ip # rest) =
     (if CHR ''/'' \<in> set allowed_ip then
        (case ip_address L client_ip of
           None \<Rightarrow> allowed_loop L client_ip rest
         | Some a \<Rightarrow>
             (case ip_network L allowed_ip of
                None \<Rightarrow> allowed_loop L client_ip rest
              | Some n \<Rightarrow> if contains L n a then True else allowed_loop L client_ip rest))
      else if client_ip = allowed_ip then True
      else allowed_loop L client_ip rest)"

definition normalize_localhost :: "string \<Rightarrow> string" where
  \<comment> \<open>\<open>if client_ip in ['127.0.0.1', '::1', 'localhost']: client_ip = '127.0.0.1'\<close>\<close>
  "normalize_localhost client_ip =
     (if client_ip \<in> set [''127.0.0.1'', ''::1'', ''localhost''] then ''127.0.0.1'' else client_ip)"

definition verify_ip_address :: "('a, 'n) ipaddress \<Rightarrow> environ \<Rightarrow> string \<Rightarrow> bool" where
  "verify_ip_address L env client_ip =
     (let allowed_ips = get_allowed_ips env
      in if allowed_ips = [] then True
         else allowed_loop L (normalize_localhost client_ip) allowed_ips)"

section \<open>The access gate\<close>

definition verify_api_key :: "environ \<Rightarrow> string option \<Rightarrow> http_exception + string" where
  "verify_api_key env api_key =
     (case get_api_key env of
        None \<Rightarrow> Inr ''no-key-required''
      | Some expected_api_key \<Rightarrow>
          if expected_api_key = [] then Inr ''no-key-required''
          else (case api_key of
                  None \<Rightarrow> Inl (HTTPException 401
                    ''API Key requerida. Proporciona la API Key en el header X-API-Key'')
                | Some k \<Rightarrow>
                    if k = [] then Inl (HTTPException 401
                      ''API Key requerida. Proporciona la API Key en el header X-API-Key'')
                    else if k \<noteq> expected_api_key then
                      Inl (HTTPException 401 (''API Key inv'' @ [CHR 0xE1] @ ''lida''))
                    else Inr k))"

definition get_client_ip :: "request \<Rightarrow> string" where
  "get_client_ip req =
     (let client_ip = (case client req of Some host \<Rightarrow> host | None \<Rightarrow> ''unknown'');
          client_ip = (case headers req ''X-Forwarded-For'' of
                         None \<Rightarrow> client_ip
                       | Some forwarded_for \<Rightarrow>
                           if forwarded_for \<noteq> [] then py_strip (first_field CHR '','' forwarded_for)
                           else client_ip);
          client_ip = (case headers req ''X-Real-IP'' of
                         None \<Rightarrow> client_ip
                       | Some real_ip \<Rightarrow> if real_ip \<noteq> [] then py_strip real_ip else client_ip)
      in client_ip)"

definition is_private_prefix :: "string \<Rightarrow> bool" where
  \<comment> \<open>the three \<open>startswith\<close> tests shared by \<open>verify_access\<close> and the middleware\<close>
  "is_private_prefix client_ip =
     (startswith client_ip ''172.'' \<or> startswith client_ip ''192.168.'' \<or> startswith client_ip ''10.'')"

definition forbidden_detail :: "string \<Rightarrow> string" where
  "forbidden_detail client_ip =
     ''Acceso denegado. Tu IP ('' @ client_ip @ '') no est'' @ [CHR 0xE1]
       @ '' en la lista de IPs permitidas.''"

definition verify_access ::
  "('a, 'n) ipaddress \<Rightarrow> environ \<Rightarrow> request \<Rightarrow> string \<Rightarrow> (http_exception + string) \<times> event list" where
  \<comment> \<open>the body of \<open>verify_access\<close>, given the key its dependency \<open>verify_api_key\<close> returned;
      the client IP is resolved inline, line for line as in \<open>get_client_ip\<close>\<close>
  "verify_access L env req api_key =
     (let client_ip = (case client req of Some host \<Rightarrow> host | None \<Rightarrow> ''unknown'');
          client_ip = (case headers req ''X-Forwarded-For'' of
                         None \<Rightarrow> client_ip
                       | Some forwarded_for \<Rightarrow>
                           if forwarded_for \<noteq> [] then py_strip (first_field CHR '','' forwarded_for)
                           else client_ip);
          client_ip = (case headers req ''X-Real-IP'' of
                         None \<Rightarrow> client_ip
                       | Some real_ip \<Rightarrow> if real_ip \<noteq> [] then py_strip real_ip else client_ip);
          allowed_ips = get_allowed_ips env
      in if ''127.0.0.1'' \<in> set allowed_ips \<and> is_private_prefix client_ip then (Inr api_key, [])
         else if \<not> verify_ip_address L env client_ip then
           (Inl (HTTPException 403 (forbidden_detail client_ip)), [Verify_ip_address client_ip])
         else (Inr api_key, [Verify_ip_address client_ip]))"

definition access_gate ::
  "('a, 'n) ipaddress \<Rightarrow> environ \<Rightarrow> request \<Rightarrow> (http_exception + string) \<times> event list" where
  \<comment> \<open>\<open>Depends(verify_access)\<close>: FastAPI first solves the sub-dependency
      \<open>Security(api_key_header)\<close> / \<open>verify_api_key\<close>; an exception raised there ends the
      request and \<open>verify_access\<close> is not called\<close>
  "access_gate L env req =
     (case verify_api_key env (headers req ''X-API-Key'') of
        Inl e \<Rightarrow> (Inl e, [])
      | Inr api_key \<Rightarrow> verify_access L env req api_key)"

section \<open>The documentation middleware\<close>

datatype dispatch_result = JSONResponse nat string | Call_next

definition docs_paths :: "string list" where
  "docs_paths = [''/docs'', ''/redoc'', ''/openapi.json'']"

definition docs_forbidden_detail :: "string \<Rightarrow> string" where
  "docs_forbidden_detail client_ip =
     ''Acceso denegado. Tu IP ('' @ client_ip @ '') no est'' @ [CHR 0xE1]
       @ '' autorizada para acceder a la documentaci'' @ [CHR 0xF3] @ ''n.''"

definition dispatch ::
  "('a, 'n) ipaddress \<Rightarrow> environ \<Rightarrow> request \<Rightarrow> dispatch_result \<times> event list" where
  \<comment> \<open>\<open>DocsAccessMiddleware.dispatch\<close>; \<open>Call_next\<close> is \<open>await call_next(request)\<close>\<close>
  "dispatch L env req =
     (if list_ex (\<lambda>path. startswith (url_path req) path) docs_paths then
        (let client_ip = get_client_ip req;
             allowed_ips = get_allowed_ips env
         in if allowed_ips = [] then (Call_next, [])
            else if ''127.0.0.1'' \<in> set allowed_ips \<and>
                    (client_ip \<in> set [''127.0.0.1'', ''::1'', ''localhost''] \<or>
                     is_private_prefix client_ip)
            then (Call_next, [])
            else if \<not> verify_ip_address L env client_ip then
              (JSONResponse 403 (docs_forbidden_detail client_ip), [Verify_ip_address client_ip])
            else (Call_next, [Verify_ip_address client_ip]))
      else (Call_next, []))"

section \<open>The mail relay\<close>

datatype exn =
    ValueError string
  | SMTPAuthenticationError string
  | SMTPException string
  | OtherException string

text \<open>
  What lies outside the repository and outside Python's pure string operations is a
  parameter too: \<open>int(...)\<close> and \<open>base64.b64decode\<close> (\<open>Inl\<close> carries \<open>str(e)\<close> of
  the exception raised), the validation of one \<open>EmailStr\<close> (which answers the
  normalised address), the SMTP server's reaction to each step of the exchange (the
  exception it makes \<open>smtplib\<close> raise, if any) and the clock.
\<close>

record externals =
  int_of_str :: "string \<Rightarrow> string + int"
  b64decode :: "string \<Rightarrow> string + string"
  validate_email :: "string \<Rightarrow> string option"
  smtp_connect :: "bool \<Rightarrow> string \<Rightarrow> int \<Rightarrow> exn option"
  smtp_starttls :: "exn option"
  smtp_login :: "string \<Rightarrow> string \<Rightarrow> exn option"
  smtp_send_message :: "mime_message \<Rightarrow> exn option"
  now_isoformat :: string

record smtp_config =
  smtp_server :: "string option"
  smtp_port :: int
  smtp_user :: "string option"
  smtp_password :: "string option"
  smtp_from_email :: "string option"
  smtp_use_tls :: bool
  smtp_use_ssl :: bool

definition py_lower :: "string \<Rightarrow> string" where
  \<comment> \<open>\<open>s.lower()\<close> on the code points below 256\<close>
  "py_lower s =
     map (\<lambda>c. let n = (of_char c :: nat)
               in if (65 \<le> n \<and> n \<le> 90) \<or> (192 \<le> n \<and> n \<le> 222 \<and> n \<noteq> 215)
                  then char_of (n + 32) else c) s"

fun py_join :: "string \<Rightarrow> string list \<Rightarrow> string" where
  \<comment> \<open>\<open>sep.join(xs)\<close>\<close>
  "py_join sep [] = []"
| "py_join sep [x] = x"
| "py_join sep (x # y # ys) = x @ sep @ py_join sep (y # ys)"

fun show_nat :: "nat \<Rightarrow> string" where
  \<comment> \<open>the decimal text of a number, as an f-string prints it\<close>
  "show_nat n =
     (if n < 10 then [char_of (48 + n)] else show_nat (n div 10) @ [char_of (48 + n mod 10)])"

definition get_smtp_config :: "externals \<Rightarrow> environ \<Rightarrow> exn + smtp_config" where
  "get_smtp_config X env =
     (case int_of_str X (getenv env ''SMTP_PORT'' ''587'') of
        Inl e \<Rightarrow> Inl (ValueError e)
      | Inr port \<Rightarrow>
          (let config = \<lparr>smtp_server = env ''SMTP_SERVER'',
                          smtp_port = port,
                          smtp_user = env ''SMTP_USER'',
                          smtp_password = env ''SMTP_PASSWORD'',
                          smtp_from_email = env ''SMTP_FROM_EMAIL'',
                          smtp_use_tls = (py_lower (getenv env ''SMTP_USE_TLS'' ''true'') = ''true''),
                          smtp_use_ssl = (port = 465)\<rparr>;
               missing_vars =
                 (if falsy (smtp_server config) then [''smtp_server''] else []) @
                 (if falsy (smtp_user config) then [''smtp_user''] else []) @
                 (if falsy (smtp_password config) then [''smtp_password''] else []) @
                 (if falsy (smtp_from_email config) then [''smtp_from_email''] else [])
           in if missing_vars \<noteq> [] then
                Inl (ValueError (''Variables de entorno faltantes: '' @ py_join '', '' missing_vars
                       @ ''. Por favor, configura el archivo .env''))
              else Inr config))"

definition decode_base64_attachment :: "externals \<Rightarrow> attachment \<Rightarrow> exn + string" where
  "decode_base64_attachment X a =
     (case b64decode X (content a) of
        Inr bytes \<Rightarrow> Inr bytes
      | Inl e \<Rightarrow> Inl (ValueError (''Error al decodificar el adjunto '' @ filename a @ '': '' @ e)))"

fun attach_all ::
  "externals \<Rightarrow> attachment list \<Rightarrow> mime_part list \<Rightarrow> (exn + mime_part list) \<times> event list" where
  \<comment> \<open>the \<open>for attachment in attachments\<close> loop of \<open>send_email\<close>; \<open>Message.set_type\<close>
      raises a \<open>ValueError\<close> without text unless the type has exactly one slash\<close>
  "attach_all X [] acc = (Inr acc, [])"
| "attach_all X (a # rest) acc =
     (case decode_base64_attachment X a of
        Inl e \<Rightarrow> (Inl e, [Decode_attachment (filename a)])
      | Inr file_content \<Rightarrow>
          (let part = \<lparr>payload = file_content,
                        disposition = ''attachment; filename= '' @ filename a,
                        part_type = ''application/octet-stream''\<rparr>
           in case content_type a of
                None \<Rightarrow>
                  (let (r, t) = attach_all X rest (acc @ [part])
                   in (r, Decode_attachment (filename a) # t))
              | Some ct \<Rightarrow>
                  if ct = [] then
                    (let (r, t) = attach_all X rest (acc @ [part])
                     in (r, Decode_attachment (filename a) # t))
                  else if length (filter (\<lambda>c. c = CHR ''/'') ct) \<noteq> 1 then
                    (Inl (ValueError []), [Decode_attachment (filename a)])
                  else
                    (let (r, t) = attach_all X rest (acc @ [part\<lparr>part_type := ct\<rparr>])
                     in (r, Decode_attachment (filename a) # t))))"

definition smtp_exchange ::
  "externals \<Rightarrow> smtp_config \<Rightarrow> mime_message \<Rightarrow> exn option \<times> event list" where
  \<comment> \<open>the two \<open>with smtplib...\<close> blocks of \<open>send_email\<close>; the required settings are
      present when this is reached\<close>
  "smtp_exchange X config msg =
     (let server = the (smtp_server config); port = smtp_port config;
          user = the (smtp_user config); password = the (smtp_password config)
      in if smtp_use_ssl config then
           (case smtp_connect X True server port of
              Some e \<Rightarrow> (Some e, [Smtp_connect True server port])
            | None \<Rightarrow>
                (case smtp_login X user password of
                   Some e \<Rightarrow> (Some e, [Smtp_connect True server port, Smtp_login user password])
                 | None \<Rightarrow>
                     (smtp_send_message X msg,
                      [Smtp_connect True server port, Smtp_login user password,
                       Smtp_send_message msg])))
         else
           (case smtp_connect X False server port of
              Some e \<Rightarrow> (Some e, [Smtp_connect False server port])
            | None \<Rightarrow>
                (let tls = (if smtp_use_tls config then [Smtp_starttls] else [])
                 in case (if smtp_use_tls config then smtp_starttls X else None) of
                      Some e \<Rightarrow> (Some e, Smtp_connect False server port # tls)
                    | None \<Rightarrow>
                        (case smtp_login X user password of
                           Some e \<Rightarrow>
                             (Some e, Smtp_connect False server port # tls @ [Smtp_login user password])
                         | None \<Rightarrow>
                             (smtp_send_message X msg,
                              Smtp_connect False server port # tls
                                @ [Smtp_login user password, Smtp_send_message msg])))))"

record send_result =
  result_success :: bool
  result_message :: string
  result_recipients :: "string list"

definition send_email ::
  "externals \<Rightarrow> environ \<Rightarrow> string \<Rightarrow> string \<Rightarrow> string list \<Rightarrow> attachment list option \<Rightarrow> bool
     \<Rightarrow> (exn + send_result) \<times> event list" where
  "send_email X env subj text rcpts atts html =
     (case get_smtp_config X env of
        Inl e \<Rightarrow> (Inl e, [])
      | Inr config \<Rightarrow>
          (case attach_all X (case atts of None \<Rightarrow> [] | Some as \<Rightarrow> as) [] of
             (Inl e, t) \<Rightarrow> (Inl e, t)
           | (Inr ps, t) \<Rightarrow>
               (let msg = \<lparr>msg_from = the (smtp_from_email config),
                           msg_to = py_join '', '' rcpts,
                           msg_subject = subj,
                           text_subtype = (if html then ''html'' else ''plain''),
                           text_part = text,
                           parts = ps\<rparr>
                in case smtp_exchange X config msg of
                     (Some e, t') \<Rightarrow> (Inl e, t @ t')
                   | (None, t') \<Rightarrow>
                       (Inr \<lparr>result_success = True,
                             result_message = ''Correo enviado exitosamente a ''
                               @ show_nat (length rcpts) @ '' destinatario(s)'',
                             result_recipients = rcpts\<rparr>,
                        t @ t'))))"

section \<open>The mail-send endpoint\<close>

definition send_email_endpoint ::
  "externals \<Rightarrow> environ \<Rightarrow> email_request \<Rightarrow> (http_exception + email_response) \<times> event list" where
  \<comment> \<open>the body of the endpoint function: it runs once FastAPI has solved its parameters\<close>
  "send_email_endpoint X env email_request =
     (case send_email X env (subject email_request) (body email_request)
             (recipients email_request) (attachments email_request) (is_html email_request) of
        (Inr result, t) \<Rightarrow>
          (Inr \<lparr>success = result_success result,
                message = result_message result,
                timestamp = now_isoformat X,
                response_recipients = result_recipients result\<rparr>,
           Send_email # t)
      | (Inl (ValueError e), t) \<Rightarrow> (Inl (HTTPException 400 e), Send_email # t)
      | (Inl (SMTPAuthenticationError e), t) \<Rightarrow>
          (Inl (HTTPException 401
             (''Error de autenticaci'' @ [CHR 0xF3] @ ''n SMTP. Verifica las credenciales.'')),
           Send_email # t)
      | (Inl (SMTPException e), t) \<Rightarrow>
          (Inl (HTTPException 502 (''Error al comunicarse con el servidor SMTP: '' @ e)),
           Send_email # t)
      | (Inl (OtherException e), t) \<Rightarrow>
          (Inl (HTTPException 500 (''Error interno del servidor: '' @ e)), Send_email # t))"

text \<open>
  The schema layer: the constraints the \<open>EmailRequest\<close> model declares, on a body whose
  fields already have their JSON types. The answer is the validated request (each
  recipient replaced by its normalised address) or the names of the fields in error.
\<close>

definition validate_recipients :: "externals \<Rightarrow> string list \<Rightarrow> string list option" where
  \<comment> \<open>\<open>List[EmailStr]\<close> with \<open>min_items=1\<close>, then the \<open>validate_recipients\<close> validator\<close>
  "validate_recipients X v =
     (if list_ex (\<lambda>r. validate_email X r = None) v then None
      else if length v < 1 then None
      else (let v' = map (\<lambda>r. the (validate_email X r)) v
            in if v' = [] \<or> length v' = 0 then None else Some v'))"

definition validate_email_request :: "externals \<Rightarrow> email_request \<Rightarrow> string list + email_request" where
  "validate_email_request X raw =
     (let errors =
            (if length (subject raw) < 1 \<or> 500 < length (subject raw) then [''subject''] else []) @
            (if length (body raw) < 1 then [''body''] else []) @
            (if validate_recipients X (recipients raw) = None then [''recipients''] else [])
      in if errors \<noteq> [] then Inl errors
         else Inr (raw\<lparr>recipients := the (validate_recipients X (recipients raw))\<rparr>))"

datatype failure = Http_error http_exception | RequestValidationError "string list"

definition post_send_email ::
  "externals \<Rightarrow> ('a, 'n) ipaddress \<Rightarrow> environ \<Rightarrow> request \<Rightarrow> email_request
     \<Rightarrow> (failure + email_response) \<times> event list" where
  \<comment> \<open>\<open>@app.post("/send-email")\<close>: FastAPI solves the dependency \<open>verify_access\<close> first
      (an \<open>HTTPException\<close> raised there is the response), then validates the body
      against \<open>EmailRequest\<close>, and calls the endpoint function only when both succeeded\<close>
  "post_send_email X L env req raw =
     (case access_gate L env req of
        (Inl e, t) \<Rightarrow> (Inl (Http_error e), t)
      | (Inr api_key, t) \<Rightarrow>
          (case validate_email_request X raw of
             Inl errors \<Rightarrow> (Inl (RequestValidationError errors), t)
           | Inr email_request \<Rightarrow>
               (case send_email_endpoint X env email_request of
                  (Inl e, t') \<Rightarrow> (Inl (Http_error e), t @ t')
                | (Inr response, t') \<Rightarrow> (Inr response, t @ t'))))"

section \<open>Concrete library behaviour for worked examples\<close>

text \<open>
  The examples below need the libraries at particular inputs. \<open>ipv4\<close> is the
  \<open>ipaddress\<close> module on its IPv4 fragment, after \<open>IPv4Address._parse_octet\<close>,
  \<open>_ip_int_from_string\<close> and \<open>IPv4Network.__init__\<close> with \<open>strict=False\<close>: dotted
  quads and \<open>a.b.c.d/len\<close>. A string that is neither (a host name, garbage) is rejected
  as the module rejects it; IPv6 text and dotted netmasks, which the module accepts,
  are outside the fragment and no example uses them.
\<close>

definition is_ascii_digit :: "char \<Rightarrow> bool" where
  "is_ascii_digit c = (48 \<le> (of_char c :: nat) \<and> (of_char c :: nat) \<le> 57)"

definition decimal :: "string \<Rightarrow> nat" where
  "decimal s = foldl (\<lambda>n c. 10 * n + (of_char c - 48)) 0 s"

definition parse_octet :: "string \<Rightarrow> nat option" where
  "parse_octet octet_str =
     (if octet_str = [] then None
      else if \<not> list_all is_ascii_digit octet_str then None
      else if 3 < length octet_str then None
      else if octet_str \<noteq> ''0'' \<and> hd octet_str = CHR ''0'' then None
      else if 255 < decimal octet_str then None
      else Some (decimal octet_str))"

definition ipv4_address :: "string \<Rightarrow> 32 word option" where
  "ipv4_address s =
     (if CHR ''/'' \<in> set s then None
      else (case map parse_octet (py_split CHR ''.'' s) of
              [Some a, Some b, Some c, Some d] \<Rightarrow>
                Some (word_of_nat (((a * 256 + b) * 256 + c) * 256 + d))
            | _ \<Rightarrow> None))"

definition prefix_from_prefix_string :: "string \<Rightarrow> nat option" where
  "prefix_from_prefix_string s =
     (if s = [] \<or> \<not> list_all is_ascii_digit s then None
      else if 32 < decimal s then None
      else Some (decimal s))"

definition ipv4_network :: "string \<Rightarrow> (32 word \<times> 32 word) option" where
  \<comment> \<open>the network address and the netmask; host bits are masked away, not refused\<close>
  "ipv4_network s =
     (case py_split CHR ''/'' s of
        [addr_str, mask_str] \<Rightarrow>
          (case ipv4_address addr_str of
             None \<Rightarrow> None
           | Some packed \<Rightarrow>
               (case prefix_from_prefix_string mask_str of
                  None \<Rightarrow> None
                | Some prefixlen \<Rightarrow>
                    (let netmask = (- 1) XOR drop_bit prefixlen (- 1)
                     in Some (packed AND netmask, netmask))))
      | [addr_str] \<Rightarrow>
          (case ipv4_address addr_str of None \<Rightarrow> None | Some packed \<Rightarrow> Some (packed, - 1))
      | _ \<Rightarrow> None)"

definition ipv4 :: "(32 word, 32 word \<times> 32 word) ipaddress" where
  "ipv4 = \<lparr>ip_address = ipv4_address,
           ip_network = ipv4_network,
           contains = (\<lambda>(network_address, netmask) a. a AND netmask = network_address)\<rparr>"

text \<open>
  \<open>py_b64decode\<close> is \<open>base64.b64decode(s)\<close> for a \<open>str\<close> with the default
  \<open>validate=False\<close>, after CPython's \<open>binascii.a2b_base64\<close> (3.11 and later) in its
  non-strict mode: characters outside the alphabet are skipped, a pad sequence that
  completes a quad ends the input, and leftover characters are an error.
\<close>

definition b64_index :: "char \<Rightarrow> nat option" where
  "b64_index c =
     (let n = (of_char c :: nat)
      in if 65 \<le> n \<and> n \<le> 90 then Some (n - 65)
         else if 97 \<le> n \<and> n \<le> 122 then Some (n - 71)
         else if 48 \<le> n \<and> n \<le> 57 then Some (n + 4)
         else if n = 43 then Some 62
         else if n = 47 then Some 63
         else None)"

fun a2b_base64 :: "nat \<Rightarrow> nat \<Rightarrow> nat \<Rightarrow> string \<Rightarrow> string \<Rightarrow> string + string" where
  "a2b_base64 quad_pos leftchar pads out [] =
     (if quad_pos \<noteq> 0 then
        (if quad_pos = 1 then
           Inl (''Invalid base64-encoded string: number of data characters (''
                  @ show_nat (length out div 3 * 4 + 1)
                  @ '') cannot be 1 more than a multiple of 4'')
         else Inl ''Incorrect padding'')
      else Inr out)"
| "a2b_base64 quad_pos leftchar pads out (this_ch # rest) =
     (if this_ch = CHR ''='' then
        (if 2 \<le> quad_pos then
           (if 4 \<le> quad_pos + (pads + 1) then Inr out
            else a2b_base64 quad_pos leftchar (pads + 1) out rest)
         else a2b_base64 quad_pos leftchar pads out rest)
      else
        (case b64_index this_ch of
           None \<Rightarrow> a2b_base64 quad_pos leftchar pads out rest
         | Some v \<Rightarrow>
             if quad_pos = 0 then a2b_base64 1 v 0 out rest
             else if quad_pos = 1 then
               a2b_base64 2 (v mod 16) 0 (out @ [char_of (leftchar * 4 + v div 16)]) rest
             else if quad_pos = 2 then
               a2b_base64 3 (v mod 4) 0 (out @ [char_of (leftchar * 16 + v div 4)]) rest
             else a2b_base64 0 0 0 (out @ [char_of (leftchar * 64 + v)]) rest))"

definition py_b64decode :: "string \<Rightarrow> string + string" where
  "py_b64decode s =
     (if list_ex (\<lambda>c. 127 < (of_char c :: nat)) s then
        Inl ''string argument should contain only ASCII characters''
      else a2b_base64 0 0 0 [] s)"

text \<open>
  \<open>demo\<close> completes the picture with a mail server that accepts every step, the
  genuine decoder, \<open>int\<close> on plain digit strings, and an address check that asks only
  for one \<open>@\<close> between two non-empty halves. Theorems quantify over the externals;
  \<open>demo\<close> only instantiates them.
\<close>

definition demo :: externals where
  "demo = \<lparr>int_of_str = (\<lambda>s. if s \<noteq> [] \<and> list_all is_ascii_digit s then Inr (int (decimal s))
                             else Inl (''invalid literal for int() with base 10'')),
           b64decode = py_b64decode,
           validate_email = (\<lambda>s. case py_split CHR ''@'' s of
                                    [l, d] \<Rightarrow> if l \<noteq> [] \<and> d \<noteq> [] then Some s else None
                                  | _ \<Rightarrow> None),
           smtp_connect = (\<lambda>ssl host port. None),
           smtp_starttls = None,
           smtp_login = (\<lambda>user password. None),
           smtp_send_message = (\<lambda>msg. None),
           now_isoformat = ''2024-01-01T00:00:00''\<rparr>"

section \<open>The specification's contracts\<close>

text \<open>
  Two contracts of the specification, written after its words, to be compared with the
  code: the resolver's precedence list (``the \<open>X-Real-IP\<close> value if that header is
  present, otherwise the first element of \<open>X-Forwarded-For\<close> if present, otherwise the
  peer address, otherwise \<open>unknown\<close>'') and the matcher's \<open>matches(candidate, entry)\<close>
  (``an entry with a slash is a CIDR network and the candidate matches iff it parses as
  an address within it; otherwise the entry is a literal and the match is string
  equality after \<open>::1\<close> and \<open>localhost\<close> are normalised to \<open>127.0.0.1\<close>'').
\<close>

definition resolve_spec :: "request \<Rightarrow> string" where
  "resolve_spec req =
     (case headers req ''X-Real-IP'' of
        Some real_ip \<Rightarrow> py_strip real_ip
      | None \<Rightarrow>
          (case headers req ''X-Forwarded-For'' of
             Some forwarded_for \<Rightarrow> py_strip (first_field CHR '','' forwarded_for)
           | None \<Rightarrow> (case client req of Some host \<Rightarrow> host | None \<Rightarrow> ''unknown'')))"

definition matches :: "('a, 'n) ipaddress \<Rightarrow> string \<Rightarrow> string \<Rightarrow> bool" where
  "matches L candidate entry =
     (if CHR ''/'' \<in> set entry then
        (case ip_network L entry of
           None \<Rightarrow> False
         | Some n \<Rightarrow> (case ip_address L candidate of None \<Rightarrow> False | Some a \<Rightarrow> contains L n a))
      else normalize_localhost candidate = entry)"

text \<open>Vocabulary for the statements about the mail relay.\<close>

fun is_smtp_event :: "event \<Rightarrow> bool" where
  "is_smtp_event (Smtp_connect ssl host port) = True"
| "is_smtp_event Smtp_starttls = True"
| "is_smtp_event (Smtp_login user password) = True"
| "is_smtp_event (Smtp_send_message msg) = True"
| "is_smtp_event ev = False"


section \<open>Auxiliary facts\<close>

subsection \<open>The gate and the matcher\<close>

lemma verify_access_on_client_ip:
  "verify_access L env req k =
     (if ''127.0.0.1'' \<in> set (get_allowed_ips env) \<and> is_private_prefix (get_client_ip req)
      then (Inr k, [])
      else if \<not> verify_ip_address L env (get_client_ip req) then
        (Inl (HTTPException 403 (forbidden_detail (get_client_ip req))),
         [Verify_ip_address (get_client_ip req)])
      else (Inr k, [Verify_ip_address (get_client_ip req)]))"
  by (simp add: verify_access_def get_client_ip_def Let_def)

lemma normalize_localhost_idem:
  "normalize_localhost (normalize_localhost c) = normalize_localhost c"
  by (simp add: normalize_localhost_def)

lemma allowed_loop_step:
  "normalize_localhost c = c \<Longrightarrow>
   allowed_loop L c (e # rest) = (matches L c e \<or> allowed_loop L c rest)"
  by (cases "CHR ''/'' \<in> set e") (auto simp: matches_def split: option.splits)

lemma allowed_loop_normal:
  "normalize_localhost c = c \<Longrightarrow> allowed_loop L c as = (\<exists>e\<in>set as. matches L c e)"
proof (induction as)
  case Nil
  show ?case by simp
next
  case (Cons e rest)
  then show ?case unfolding allowed_loop_step [OF Cons.prems] by simp
qed

lemma verify_ip_address_iff:
  "verify_ip_address L env c =
     (get_allowed_ips env = [] \<or> (\<exists>e\<in>set (get_allowed_ips env). matches L (normalize_localhost c) e))"
  using allowed_loop_normal [OF normalize_localhost_idem, of L c "get_allowed_ips env"]
  by (auto simp: verify_ip_address_def Let_def)

lemma matches_localhost:
  "c \<in> set [''127.0.0.1'', ''::1'', ''localhost''] \<Longrightarrow> matches L (normalize_localhost c) ''127.0.0.1''"
  by (auto simp: matches_def normalize_localhost_def)

lemma allowed_loop_append:
  "allowed_loop L c (xs @ ys) = (allowed_loop L c xs \<or> allowed_loop L c ys)"
  by (induction xs) (auto split: option.splits)

lemma allowed_loop_malformed:
  "CHR ''/'' \<in> set bad \<and> ip_network L bad = None \<Longrightarrow> \<not> allowed_loop L c [bad]"
  by (simp split: option.splits)

lemma access_gate_events:
  "ev \<in> set (snd (access_gate L env req)) \<Longrightarrow> \<exists>ip. ev = Verify_ip_address ip"
  by (auto simp: access_gate_def verify_access_on_client_ip split: sum.splits if_splits)

lemma access_gate_granted:
  "(fst (access_gate L env req) = Inr k) =
     (verify_api_key env (headers req ''X-API-Key'') = Inr k \<and> fst (verify_access L env req k) = Inr k)"
  by (auto simp: access_gate_def verify_access_on_client_ip split: sum.splits if_splits)

lemma post_send_email_denied:
  "fst (access_gate L env req) = Inl e \<Longrightarrow>
   post_send_email X L env req raw = (Inl (Http_error e), snd (access_gate L env req))"
  by (cases "access_gate L env req") (simp add: post_send_email_def)

subsection \<open>The attachment loop and the SMTP exchange\<close>




lemma smtp_exchange_events:
  "ev \<in> set (snd (smtp_exchange X config msg)) \<Longrightarrow> is_smtp_event ev"
  by (auto simp: smtp_exchange_def Let_def split: option.splits if_splits)


lemma validate_empty_recipients:
  "recipients raw = [] \<Longrightarrow>
   \<exists>errors. validate_email_request X raw = Inl errors \<and> ''recipients'' \<in> set errors"
  by (simp add: validate_email_request_def validate_recipients_def Let_def)

subsection \<open>Evaluations used by the worked examples\<close>

lemma ipv4_address_examples:
  "ipv4_address ''localhost'' = None"
  "ipv4_address ''127.0.0.1'' = Some 2130706433"
  "ipv4_address ''192.168.1.77'' = Some 3232235853"
  "ipv4_address ''8.8.8.8'' = Some 134744072"
  "ipv4_address ''10.0.0.9'' = Some 167772169"
  by (simp_all add: ipv4_address_def parse_octet_def is_ascii_digit_def decimal_def)

lemma ipv4_network_examples:
  "ipv4_network ''127.0.0.0/8'' = Some (2130706432, 4278190080)"
  "ipv4_network ''192.168.1.5/24'' = Some (3232235776, 4294967040)"
  "ipv4_network ''10.0.0.0/99'' = None"
  "ipv4_network ''not/a/net'' = None"
  by (simp_all add: ipv4_network_def ipv4_address_def parse_octet_def is_ascii_digit_def
        decimal_def prefix_from_prefix_string_def Let_def mask_eq_exp_minus_1)

lemma get_allowed_ips_examples:
  "get_allowed_ips [''ALLOWED_IPS'' \<mapsto> ''127.0.0.0/8''] = [''127.0.0.0/8'']"
  "get_allowed_ips [''ALLOWED_IPS'' \<mapsto> ''127.0.0.1''] = [''127.0.0.1'']"
  "get_allowed_ips [''ALLOWED_IPS'' \<mapsto> ''192.168.1.5/24''] = [''192.168.1.5/24'']"
  "get_allowed_ips [''ALLOWED_IPS'' \<mapsto> ''10.0.0.0/99, not/a/net, 192.168.1.5/24'']
     = [''10.0.0.0/99'', ''not/a/net'', ''192.168.1.5/24'']"
  "get_allowed_ips [''ALLOWED_IPS'' \<mapsto> ''localhost,::1,127.0.0.0/8'']
     = [''localhost'', ''::1'', ''127.0.0.0/8'']"
  by (simp_all add: get_allowed_ips_def getenv_def py_strip_def is_space_def)

lemma show_nat_one: "show_nat (Suc 0) = ''1''" "show_nat 1 = ''1''"
  by code_simp+

lemma demo_allowed:
  "get_allowed_ips [''SMTP_SERVER'' \<mapsto> ''smtp.example.com'', ''SMTP_USER'' \<mapsto> ''mailer'',
      ''SMTP_PASSWORD'' \<mapsto> ''pw'', ''SMTP_FROM_EMAIL'' \<mapsto> ''noreply@example.com'',
      ''API_KEY'' \<mapsto> ''s3cret'', ''ALLOWED_IPS'' \<mapsto> ''127.0.0.1''] = [''127.0.0.1'']"
  by (simp add: get_allowed_ips_def getenv_def py_strip_def is_space_def)

lemma demo_smtp_config:
  "get_smtp_config demo [''SMTP_SERVER'' \<mapsto> ''smtp.example.com'', ''SMTP_USER'' \<mapsto> ''mailer'',
      ''SMTP_PASSWORD'' \<mapsto> ''pw'', ''SMTP_FROM_EMAIL'' \<mapsto> ''noreply@example.com'',
      ''API_KEY'' \<mapsto> ''s3cret'', ''ALLOWED_IPS'' \<mapsto> ''127.0.0.1'']
   = Inr \<lparr>smtp_server = Some ''smtp.example.com'', smtp_port = 587, smtp_user = Some ''mailer'',
          smtp_password = Some ''pw'', smtp_from_email = Some ''noreply@example.com'',
          smtp_use_tls = True, smtp_use_ssl = False\<rparr>"
  by (simp add: get_smtp_config_def demo_def getenv_def is_ascii_digit_def decimal_def falsy_def
        py_lower_def Let_def)


section \<open>No mail without a grant\<close>

text \<open>
  Claim C1. For every request to the mail-send endpoint, \<open>send_email\<close> is called, and
  any SMTP action happens, only if the gate granted the request: \<open>verify_api_key\<close>
  returned a key and \<open>verify_access\<close> returned it. Whenever the gate denies, the
  response is the gate's exception and the request leaves no \<open>Send_email\<close> and no SMTP
  event behind.
\<close>

theorem no_mail_without_grant:
  "(Send_email \<in> set (snd (post_send_email X L env req raw))
      \<or> (\<exists>ev\<in>set (snd (post_send_email X L env req raw)). is_smtp_event ev) \<longrightarrow>
    (\<exists>k. verify_api_key env (headers req ''X-API-Key'') = Inr k
         \<and> fst (verify_access L env req k) = Inr k))
   \<and> (fst (access_gate L env req) = Inl e \<longrightarrow>
        fst (post_send_email X L env req raw) = Inl (Http_error e)
        \<and> (\<forall>ev\<in>set (snd (post_send_email X L env req raw)). ev \<noteq> Send_email \<and> \<not> is_smtp_event ev))"
proof -
  have denied: "fst (post_send_email X L env req raw) = Inl (Http_error d)
        \<and> (\<forall>ev\<in>set (snd (post_send_email X L env req raw)). ev \<noteq> Send_email \<and> \<not> is_smtp_event ev)"
    if d: "fst (access_gate L env req) = Inl d" for d
  proof -
    have "ev \<noteq> Send_email \<and> \<not> is_smtp_event ev" if "ev \<in> set (snd (access_gate L env req))" for ev
      using access_gate_events [OF that] by auto
    then show ?thesis by (simp add: post_send_email_denied [OF d])
  qed
  have granted: "\<exists>k. verify_api_key env (headers req ''X-API-Key'') = Inr k
         \<and> fst (verify_access L env req k) = Inr k"
    if ev: "Send_email \<in> set (snd (post_send_email X L env req raw))
      \<or> (\<exists>ev\<in>set (snd (post_send_email X L env req raw)). is_smtp_event ev)"
  proof (cases "fst (access_gate L env req)")
    case (Inl d)
    from denied [OF this] ev show ?thesis by blast
  next
    case (Inr k)
    then show ?thesis by (auto simp: access_gate_granted)
  qed
  from denied granted show ?thesis by blast
qed

theorem no_mail_without_grant_witness:
  "snd (post_send_email demo ipv4
          [''SMTP_SERVER'' \<mapsto> ''smtp.example.com'', ''SMTP_USER'' \<mapsto> ''mailer'',
           ''SMTP_PASSWORD'' \<mapsto> ''pw'', ''SMTP_FROM_EMAIL'' \<mapsto> ''noreply@example.com'',
           ''API_KEY'' \<mapsto> ''s3cret'', ''ALLOWED_IPS'' \<mapsto> ''127.0.0.1'']
          \<lparr>client = Some ''127.0.0.1'', headers = [''X-API-Key'' \<mapsto> ''s3cret''],
           url_path = ''/send-email''\<rparr>
          \<lparr>subject = ''Hi'', body = ''Hello'', recipients = [''a@example.com''],
           attachments = None, is_html = False\<rparr>)
     = [Verify_ip_address ''127.0.0.1'', Send_email, Smtp_connect False ''smtp.example.com'' 587,
        Smtp_starttls, Smtp_login ''mailer'' ''pw'',
        Smtp_send_message \<lparr>msg_from = ''noreply@example.com'', msg_to = ''a@example.com'',
          msg_subject = ''Hi'', text_subtype = ''plain'', text_part = ''Hello'', parts = []\<rparr>]
   \<and> (\<exists>k. verify_api_key
            [''SMTP_SERVER'' \<mapsto> ''smtp.example.com'', ''SMTP_USER'' \<mapsto> ''mailer'',
             ''SMTP_PASSWORD'' \<mapsto> ''pw'', ''SMTP_FROM_EMAIL'' \<mapsto> ''noreply@example.com'',
             ''API_KEY'' \<mapsto> ''s3cret'', ''ALLOWED_IPS'' \<mapsto> ''127.0.0.1'']
            (Some ''s3cret'') = Inr k)
   \<and> post_send_email demo ipv4
          [''SMTP_SERVER'' \<mapsto> ''smtp.example.com'', ''SMTP_USER'' \<mapsto> ''mailer'',
           ''SMTP_PASSWORD'' \<mapsto> ''pw'', ''SMTP_FROM_EMAIL'' \<mapsto> ''noreply@example.com'',
           ''API_KEY'' \<mapsto> ''s3cret'', ''ALLOWED_IPS'' \<mapsto> ''127.0.0.1'']
          \<lparr>client = Some ''8.8.8.8'', headers = [''X-API-Key'' \<mapsto> ''s3cret''],
           url_path = ''/send-email''\<rparr>
          \<lparr>subject = ''Hi'', body = ''Hello'', recipients = [''a@example.com''],
           attachments = None, is_html = False\<rparr>
     = (Inl (Http_error (HTTPException 403 (forbidden_detail ''8.8.8.8''))),
        [Verify_ip_address ''8.8.8.8''])"
proof -
  let ?env = "[''SMTP_SERVER'' \<mapsto> ''smtp.example.com'', ''SMTP_USER'' \<mapsto> ''mailer'',
           ''SMTP_PASSWORD'' \<mapsto> ''pw'', ''SMTP_FROM_EMAIL'' \<mapsto> ''noreply@example.com'',
           ''API_KEY'' \<mapsto> ''s3cret'', ''ALLOWED_IPS'' \<mapsto> ''127.0.0.1'']"
  let ?ok = "\<lparr>client = Some ''127.0.0.1'', headers = [''X-API-Key'' \<mapsto> ''s3cret''],
           url_path = ''/send-email''\<rparr>"
  let ?far = "\<lparr>client = Some ''8.8.8.8'', headers = [''X-API-Key'' \<mapsto> ''s3cret''],
           url_path = ''/send-email''\<rparr>"
  let ?raw = "\<lparr>subject = ''Hi'', body = ''Hello'', recipients = [''a@example.com''],
           attachments = None, is_html = False\<rparr>"
  have key: "verify_api_key ?env (Some ''s3cret'') = Inr ''s3cret''"
    by (simp add: verify_api_key_def get_api_key_def)
  have gate_ok: "access_gate ipv4 ?env ?ok = (Inr ''s3cret'', [Verify_ip_address ''127.0.0.1''])"
    by (simp add: access_gate_def key verify_access_on_client_ip get_client_ip_def demo_allowed
          is_private_prefix_def startswith_def verify_ip_address_def normalize_localhost_def)
  have gate_far: "access_gate ipv4 ?env ?far
      = (Inl (HTTPException 403 (forbidden_detail ''8.8.8.8'')), [Verify_ip_address ''8.8.8.8''])"
    by (simp add: access_gate_def key verify_access_on_client_ip get_client_ip_def demo_allowed
          is_private_prefix_def startswith_def verify_ip_address_def normalize_localhost_def)
  have valid: "validate_email_request demo ?raw = Inr ?raw"
    by (simp add: validate_email_request_def validate_recipients_def demo_def Let_def)
  have sent: "send_email demo ?env ''Hi'' ''Hello'' [''a@example.com''] None False
      = (Inr \<lparr>result_success = True,
              result_message = ''Correo enviado exitosamente a 1 destinatario(s)'',
              result_recipients = [''a@example.com'']\<rparr>,
         [Smtp_connect False ''smtp.example.com'' 587, Smtp_starttls, Smtp_login ''mailer'' ''pw'',
          Smtp_send_message \<lparr>msg_from = ''noreply@example.com'', msg_to = ''a@example.com'',
            msg_subject = ''Hi'', text_subtype = ''plain'', text_part = ''Hello'', parts = []\<rparr>])"
    by (simp add: send_email_def demo_smtp_config smtp_exchange_def Let_def show_nat_one
          del: show_nat.simps)
       (simp add: demo_def show_nat_one del: show_nat.simps)
  have events: "snd (post_send_email demo ipv4 ?env ?ok ?raw)
     = [Verify_ip_address ''127.0.0.1'', Send_email, Smtp_connect False ''smtp.example.com'' 587,
        Smtp_starttls, Smtp_login ''mailer'' ''pw'',
        Smtp_send_message \<lparr>msg_from = ''noreply@example.com'', msg_to = ''a@example.com'',
          msg_subject = ''Hi'', text_subtype = ''plain'', text_part = ''Hello'', parts = []\<rparr>]"
    by (simp add: post_send_email_def gate_ok valid send_email_endpoint_def sent)
  have far: "fst (access_gate ipv4 ?env ?far) = Inl (HTTPException 403 (forbidden_detail ''8.8.8.8''))"
    by (simp add: gate_far)
  have far_events: "snd (post_send_email demo ipv4 ?env ?far ?raw) = [Verify_ip_address ''8.8.8.8'']"
    by (simp add: post_send_email_def gate_far)
  from events have se: "Send_email \<in> set (snd (post_send_email demo ipv4 ?env ?ok ?raw))" by simp
  show ?thesis
    using events far_events se far
      no_mail_without_grant [of demo ipv4 ?env ?ok ?raw]
      no_mail_without_grant [of demo ipv4 ?env ?far ?raw "HTTPException 403 (forbidden_detail ''8.8.8.8'')"]
    by (auto simp: prod_eq_iff)
qed

section \<open>The access gate: key check, client IP, private-network exception\<close>

text \<open>
  Claim C4. API-key verification. With no credential configured (\<open>API_KEY\<close> unset or
  empty) every request passes the key check, whatever it presents. With a credential
  configured, a request that presents no key, and a request that presents a different
  key, are answered 401; the gate then stops there, whatever the client address and the
  allowlist are, and the IP matcher is not called.
\<close>

theorem verify_api_key_contract:
  "(falsy (get_api_key env) \<longrightarrow> (\<forall>api_key. verify_api_key env api_key = Inr ''no-key-required''))
   \<and> (get_api_key env = Some cred \<and> cred \<noteq> [] \<and> falsy (headers req ''X-API-Key'') \<longrightarrow>
        (\<exists>d. verify_api_key env (headers req ''X-API-Key'') = Inl (HTTPException 401 d)
             \<and> access_gate L env req = (Inl (HTTPException 401 d), [])))
   \<and> (get_api_key env = Some cred \<and> cred \<noteq> [] \<and> headers req ''X-API-Key'' = Some k \<and> k \<noteq> cred \<longrightarrow>
        (\<exists>d. verify_api_key env (Some k) = Inl (HTTPException 401 d)
             \<and> access_gate L env req = (Inl (HTTPException 401 d), [])))"
  by (auto simp: verify_api_key_def access_gate_def falsy_def split: option.splits)

theorem verify_api_key_contract_witness:
  "falsy (get_api_key Map.empty)
   \<and> verify_api_key Map.empty None = Inr ''no-key-required''
   \<and> get_api_key [''API_KEY'' \<mapsto> ''s3cret''] = Some ''s3cret''
   \<and> falsy (headers \<lparr>client = Some ''127.0.0.1'', headers = Map.empty, url_path = ''/send-email''\<rparr>
              ''X-API-Key'')
   \<and> (\<exists>d. access_gate ipv4 [''API_KEY'' \<mapsto> ''s3cret'']
              \<lparr>client = Some ''127.0.0.1'', headers = Map.empty, url_path = ''/send-email''\<rparr>
            = (Inl (HTTPException 401 d), []))
   \<and> (\<exists>d. access_gate ipv4 [''API_KEY'' \<mapsto> ''s3cret'']
              \<lparr>client = Some ''127.0.0.1'', headers = [''X-API-Key'' \<mapsto> ''guess''],
               url_path = ''/send-email''\<rparr>
            = (Inl (HTTPException 401 d), []))"
  using verify_api_key_contract [of Map.empty "''s3cret''"
          "\<lparr>client = Some ''127.0.0.1'', headers = Map.empty, url_path = ''/send-email''\<rparr>"
          ipv4 "''guess''"]
        verify_api_key_contract [of "[''API_KEY'' \<mapsto> ''s3cret'']" "''s3cret''"
          "\<lparr>client = Some ''127.0.0.1'', headers = Map.empty, url_path = ''/send-email''\<rparr>"
          ipv4 "''guess''"]
        verify_api_key_contract [of "[''API_KEY'' \<mapsto> ''s3cret'']" "''s3cret''"
          "\<lparr>client = Some ''127.0.0.1'', headers = [''X-API-Key'' \<mapsto> ''guess''],
            url_path = ''/send-email''\<rparr>"
          ipv4 "''guess''"]
  by (auto simp: falsy_def get_api_key_def)

text \<open>
  Claim C5, as amended. Client IP resolution: the trimmed \<open>X-Real-IP\<close> value when that
  header is present and not empty; otherwise the trimmed first comma-separated element
  of \<open>X-Forwarded-For\<close> when that header is present and not empty; otherwise the peer
  address, or \<open>unknown\<close> without one. \<open>verify_access\<close> decides on exactly this address.
\<close>

theorem get_client_ip_precedence:
  "(headers req ''X-Real-IP'' = Some r \<and> r \<noteq> [] \<longrightarrow> get_client_ip req = py_strip r)
   \<and> (falsy (headers req ''X-Real-IP'') \<and> headers req ''X-Forwarded-For'' = Some f \<and> f \<noteq> [] \<longrightarrow>
        get_client_ip req = py_strip (first_field CHR '','' f))
   \<and> (falsy (headers req ''X-Real-IP'') \<and> falsy (headers req ''X-Forwarded-For'') \<longrightarrow>
        get_client_ip req = (case client req of Some host \<Rightarrow> host | None \<Rightarrow> ''unknown''))
   \<and> verify_access L env req k =
        (if ''127.0.0.1'' \<in> set (get_allowed_ips env) \<and> is_private_prefix (get_client_ip req)
         then (Inr k, [])
         else if \<not> verify_ip_address L env (get_client_ip req) then
           (Inl (HTTPException 403 (forbidden_detail (get_client_ip req))),
            [Verify_ip_address (get_client_ip req)])
         else (Inr k, [Verify_ip_address (get_client_ip req)]))"
  unfolding verify_access_on_client_ip
  by (auto simp: get_client_ip_def falsy_def Let_def split: option.splits)

theorem get_client_ip_precedence_witness:
  "get_client_ip \<lparr>client = Some ''9.9.9.9'',
                   headers = [''X-Real-IP'' \<mapsto> ''8.8.8.8'', ''X-Forwarded-For'' \<mapsto> ''1.2.3.4''],
                   url_path = ''/send-email''\<rparr> = ''8.8.8.8''
   \<and> get_client_ip \<lparr>client = Some ''9.9.9.9'',
                     headers = [''X-Forwarded-For'' \<mapsto> '' 1.2.3.4 , 5.6.7.8''],
                     url_path = ''/send-email''\<rparr> = ''1.2.3.4''
   \<and> get_client_ip \<lparr>client = Some ''9.9.9.9'', headers = Map.empty, url_path = ''/send-email''\<rparr>
       = ''9.9.9.9''
   \<and> get_client_ip \<lparr>client = None, headers = Map.empty, url_path = ''/send-email''\<rparr> = ''unknown''"
  using get_client_ip_precedence [of
          "\<lparr>client = Some ''9.9.9.9'',
            headers = [''X-Real-IP'' \<mapsto> ''8.8.8.8'', ''X-Forwarded-For'' \<mapsto> ''1.2.3.4''],
            url_path = ''/send-email''\<rparr>" "''8.8.8.8''" "''1.2.3.4''" ipv4 Map.empty "''k''"]
        get_client_ip_precedence [of
          "\<lparr>client = Some ''9.9.9.9'',
            headers = [''X-Forwarded-For'' \<mapsto> '' 1.2.3.4 , 5.6.7.8''],
            url_path = ''/send-email''\<rparr>" "''8.8.8.8''" "'' 1.2.3.4 , 5.6.7.8''" ipv4 Map.empty "''k''"]
        get_client_ip_precedence [of
          "\<lparr>client = Some ''9.9.9.9'', headers = Map.empty, url_path = ''/send-email''\<rparr>"
          "''8.8.8.8''" "''1.2.3.4''" ipv4 Map.empty "''k''"]
        get_client_ip_precedence [of
          "\<lparr>client = None, headers = Map.empty, url_path = ''/send-email''\<rparr>"
          "''8.8.8.8''" "''1.2.3.4''" ipv4 Map.empty "''k''"]
  by (simp add: falsy_def py_strip_def is_space_def first_field_def)

text \<open>
  C5 as written takes a header that is present: an \<open>X-Real-IP\<close> header with an empty
  value is present, its trimmed value is the empty string, and the code resolves the
  peer address instead.
\<close>

theorem resolve_spec_counterexample:
  "get_client_ip \<lparr>client = Some ''9.9.9.9'', headers = [''X-Real-IP'' \<mapsto> ''''],
                   url_path = ''/send-email''\<rparr> = ''9.9.9.9''
   \<and> resolve_spec \<lparr>client = Some ''9.9.9.9'', headers = [''X-Real-IP'' \<mapsto> ''''],
                    url_path = ''/send-email''\<rparr> = ''''"
  by (simp add: get_client_ip_def resolve_spec_def py_strip_def)

text \<open>
  Claim C3. The private-network trust exception: when the allowlist contains
  \<open>127.0.0.1\<close> and the resolved client IP begins with \<open>172.\<close>, \<open>192.168.\<close> or
  \<open>10.\<close>, \<open>verify_access\<close> grants, whatever the \<open>ipaddress\<close> module would say of the
  entries, and the matcher \<open>verify_ip_address\<close> is not called (no event).
\<close>

theorem private_network_exception:
  "''127.0.0.1'' \<in> set (get_allowed_ips env) \<Longrightarrow>
   startswith (get_client_ip req) ''172.'' \<or> startswith (get_client_ip req) ''192.168.''
     \<or> startswith (get_client_ip req) ''10.'' \<Longrightarrow>
   verify_access L env req k = (Inr k, [])
   \<and> (verify_api_key env (headers req ''X-API-Key'') = Inr k \<longrightarrow> access_gate L env req = (Inr k, []))"
  by (simp add: verify_access_on_client_ip access_gate_def is_private_prefix_def)

theorem private_network_exception_witness:
  "''127.0.0.1'' \<in> set (get_allowed_ips [''ALLOWED_IPS'' \<mapsto> ''127.0.0.1''])
   \<and> startswith (get_client_ip
        \<lparr>client = Some ''192.168.1.50'', headers = Map.empty, url_path = ''/send-email''\<rparr>) ''192.168.''
   \<and> \<not> verify_ip_address ipv4 [''ALLOWED_IPS'' \<mapsto> ''127.0.0.1''] ''192.168.1.50''
   \<and> verify_access ipv4 [''ALLOWED_IPS'' \<mapsto> ''127.0.0.1'']
        \<lparr>client = Some ''192.168.1.50'', headers = Map.empty, url_path = ''/send-email''\<rparr>
        ''no-key-required'' = (Inr ''no-key-required'', [])
   \<and> verify_access ipv4 [''ALLOWED_IPS'' \<mapsto> ''127.0.0.1'']
        \<lparr>client = Some ''172.17.0.3'', headers = Map.empty, url_path = ''/send-email''\<rparr>
        ''no-key-required'' = (Inr ''no-key-required'', [])
   \<and> verify_access ipv4 [''ALLOWED_IPS'' \<mapsto> ''127.0.0.1'']
        \<lparr>client = Some ''10.0.0.9'', headers = Map.empty, url_path = ''/send-email''\<rparr>
        ''no-key-required'' = (Inr ''no-key-required'', [])"
proof -
  let ?env = "[''ALLOWED_IPS'' \<mapsto> ''127.0.0.1'']"
  have allow: "get_allowed_ips ?env = [''127.0.0.1'']"
    by (simp add: get_allowed_ips_def getenv_def py_strip_def is_space_def)
  have ips: "get_client_ip \<lparr>client = Some h, headers = Map.empty, url_path = p\<rparr> = h" for h p
    by (simp add: get_client_ip_def)
  have deny: "\<not> verify_ip_address ipv4 ?env ''192.168.1.50''"
    by (simp add: verify_ip_address_def allow normalize_localhost_def)
  show ?thesis
    using deny
      private_network_exception [of ?env
        "\<lparr>client = Some ''192.168.1.50'', headers = Map.empty, url_path = ''/send-email''\<rparr>"
        ipv4 "''no-key-required''"]
      private_network_exception [of ?env
        "\<lparr>client = Some ''172.17.0.3'', headers = Map.empty, url_path = ''/send-email''\<rparr>"
        ipv4 "''no-key-required''"]
      private_network_exception [of ?env
        "\<lparr>client = Some ''10.0.0.9'', headers = Map.empty, url_path = ''/send-email''\<rparr>"
        ipv4 "''no-key-required''"]
    by (simp add: allow ips startswith_def)
qed



section \<open>The IP matcher\<close>

text \<open>
  Claim C6, as amended. The matcher normalises the candidate (\<open>::1\<close> and \<open>localhost\<close>
  become \<open>127.0.0.1\<close>) before it looks at any entry. Against a single entry it then
  answers as \<open>matches\<close> does for the normalised candidate: an entry with a slash is
  parsed as a network, host bits allowed, and matches iff the candidate parses as an
  address inside it; any other entry matches iff it equals the candidate. So \<open>::1\<close> and
  \<open>localhost\<close> match an allowlist that contains \<open>127.0.0.1\<close>.
\<close>

theorem matcher_per_entry:
  "(get_allowed_ips env = [e] \<longrightarrow>
      verify_ip_address L env c = matches L (normalize_localhost c) e)
   \<and> (''127.0.0.1'' \<in> set (get_allowed_ips env) \<and> (c = ''::1'' \<or> c = ''localhost'') \<longrightarrow>
        verify_ip_address L env c)"
proof (intro conjI impI)
  assume "get_allowed_ips env = [e]"
  then show "verify_ip_address L env c = matches L (normalize_localhost c) e"
    by (simp add: verify_ip_address_iff)
next
  assume h: "''127.0.0.1'' \<in> set (get_allowed_ips env) \<and> (c = ''::1'' \<or> c = ''localhost'')"
  then have "matches L (normalize_localhost c) ''127.0.0.1''"
    by (intro matches_localhost) auto
  with h show "verify_ip_address L env c"
    unfolding verify_ip_address_iff by blast
qed

theorem matcher_per_entry_witness:
  "get_allowed_ips [''ALLOWED_IPS'' \<mapsto> ''192.168.1.5/24''] = [''192.168.1.5/24'']
   \<and> verify_ip_address ipv4 [''ALLOWED_IPS'' \<mapsto> ''192.168.1.5/24''] ''192.168.1.77''
   \<and> \<not> verify_ip_address ipv4 [''ALLOWED_IPS'' \<mapsto> ''192.168.1.5/24''] ''8.8.8.8''
   \<and> ''127.0.0.1'' \<in> set (get_allowed_ips [''ALLOWED_IPS'' \<mapsto> ''127.0.0.1''])
   \<and> verify_ip_address ipv4 [''ALLOWED_IPS'' \<mapsto> ''127.0.0.1''] ''::1''
   \<and> verify_ip_address ipv4 [''ALLOWED_IPS'' \<mapsto> ''127.0.0.1''] ''localhost''"
  using matcher_per_entry [of "[''ALLOWED_IPS'' \<mapsto> ''192.168.1.5/24'']" "''192.168.1.5/24''"
          ipv4 "''192.168.1.77''"]
        matcher_per_entry [of "[''ALLOWED_IPS'' \<mapsto> ''192.168.1.5/24'']" "''192.168.1.5/24''"
          ipv4 "''8.8.8.8''"]
        matcher_per_entry [of "[''ALLOWED_IPS'' \<mapsto> ''127.0.0.1'']" "''127.0.0.1''" ipv4 "''::1''"]
        matcher_per_entry [of "[''ALLOWED_IPS'' \<mapsto> ''127.0.0.1'']" "''127.0.0.1''" ipv4
          "''localhost''"]
  by (simp add: get_allowed_ips_examples matches_def normalize_localhost_def ipv4_def
        ipv4_address_examples ipv4_network_examples)

text \<open>
  C6 as written normalises only for literal entries, and lets a CIDR entry match a
  candidate only if the candidate itself parses as an address. The candidate
  \<open>localhost\<close> is not an address, yet the code matches it against \<open>127.0.0.0/8\<close>.
\<close>

theorem matcher_cidr_localhost_counterexample:
  "get_allowed_ips [''ALLOWED_IPS'' \<mapsto> ''127.0.0.0/8''] = [''127.0.0.0/8'']
   \<and> verify_ip_address ipv4 [''ALLOWED_IPS'' \<mapsto> ''127.0.0.0/8''] ''localhost''
   \<and> \<not> matches ipv4 ''localhost'' ''127.0.0.0/8''"
  by (simp add: get_allowed_ips_examples verify_ip_address_def matches_def normalize_localhost_def
        ipv4_def ipv4_address_examples ipv4_network_examples)

text \<open>
  Claim C7, as amended. The allowlist check answers true iff the allowlist is empty or
  some entry matches the candidate after \<open>::1\<close> and \<open>localhost\<close> have been normalised
  to \<open>127.0.0.1\<close>, for entries with a slash as for literal ones. An entry with a slash
  whose parse as a network fails never matches: the loop over it alone answers false, an
  allowlist made of it alone denies every candidate, and the check answers exactly what
  the loop answers on the other entries. Its failure does not end the evaluation: an
  entry on which the loop answers true gives true wherever it stands in the list.
\<close>

theorem is_allowed_contract:
  "verify_ip_address L env c =
     (get_allowed_ips env = [] \<or> (\<exists>e\<in>set (get_allowed_ips env). matches L (normalize_localhost c) e))
   \<and> (CHR ''/'' \<in> set bad \<and> ip_network L bad = None \<longrightarrow>
        \<not> matches L c bad \<and> \<not> allowed_loop L c [bad])
   \<and> (get_allowed_ips env = [bad] \<and> CHR ''/'' \<in> set bad \<and> ip_network L bad = None \<longrightarrow>
        \<not> verify_ip_address L env c)
   \<and> (get_allowed_ips env = pre @ bad # post \<and> CHR ''/'' \<in> set bad \<and> ip_network L bad = None \<longrightarrow>
        verify_ip_address L env c = allowed_loop L (normalize_localhost c) (pre @ post))
   \<and> (get_allowed_ips env = pre @ good # post \<and> allowed_loop L (normalize_localhost c) [good] \<longrightarrow>
        verify_ip_address L env c)"
proof (intro conjI impI)
  show "verify_ip_address L env c =
     (get_allowed_ips env = [] \<or> (\<exists>e\<in>set (get_allowed_ips env). matches L (normalize_localhost c) e))"
    by (rule verify_ip_address_iff)
next
  assume "CHR ''/'' \<in> set bad \<and> ip_network L bad = None"
  then show "\<not> matches L c bad" by (simp add: matches_def)
next
  assume "CHR ''/'' \<in> set bad \<and> ip_network L bad = None"
  then show "\<not> allowed_loop L c [bad]" by (rule allowed_loop_malformed)
next
  assume h: "get_allowed_ips env = [bad] \<and> CHR ''/'' \<in> set bad \<and> ip_network L bad = None"
  then have "\<not> allowed_loop L (normalize_localhost c) [bad]"
    by (intro allowed_loop_malformed) simp
  with h show "\<not> verify_ip_address L env c"
    by (simp add: verify_ip_address_def del: allowed_loop.simps)
next
  assume h: "get_allowed_ips env = pre @ bad # post \<and> CHR ''/'' \<in> set bad
    \<and> ip_network L bad = None"
  then have skip: "\<not> allowed_loop L (normalize_localhost c) [bad]"
    by (intro allowed_loop_malformed) simp
  have "allowed_loop L (normalize_localhost c) (pre @ [bad] @ post)
      = allowed_loop L (normalize_localhost c) (pre @ post)"
    unfolding allowed_loop_append using skip by blast
  with h show "verify_ip_address L env c = allowed_loop L (normalize_localhost c) (pre @ post)"
    by (simp add: verify_ip_address_def del: allowed_loop.simps)
next
  assume h: "get_allowed_ips env = pre @ good # post \<and> allowed_loop L (normalize_localhost c) [good]"
  then have "allowed_loop L (normalize_localhost c) (pre @ [good] @ post)"
    unfolding allowed_loop_append by blast
  with h show "verify_ip_address L env c"
    by (simp add: verify_ip_address_def del: allowed_loop.simps)
qed

theorem is_allowed_contract_witness:
  "get_allowed_ips [''ALLOWED_IPS'' \<mapsto> ''10.0.0.0/99, not/a/net, 192.168.1.5/24'']
     = [''10.0.0.0/99''] @ ''not/a/net'' # [''192.168.1.5/24'']
   \<and> CHR ''/'' \<in> set ''not/a/net'' \<and> ip_network ipv4 ''not/a/net'' = None
   \<and> \<not> matches ipv4 ''192.168.1.77'' ''not/a/net''
   \<and> allowed_loop ipv4 (normalize_localhost ''192.168.1.77'') [''192.168.1.5/24'']
   \<and> verify_ip_address ipv4 [''ALLOWED_IPS'' \<mapsto> ''10.0.0.0/99, not/a/net, 192.168.1.5/24'']
        ''192.168.1.77''
   \<and> \<not> verify_ip_address ipv4 [''ALLOWED_IPS'' \<mapsto> ''10.0.0.0/99, not/a/net, 192.168.1.5/24'']
        ''8.8.8.8''
   \<and> get_allowed_ips [''ALLOWED_IPS'' \<mapsto> ''not/a/net''] = [''not/a/net'']
   \<and> \<not> verify_ip_address ipv4 [''ALLOWED_IPS'' \<mapsto> ''not/a/net''] ''192.168.1.77''
   \<and> verify_ip_address ipv4 Map.empty ''8.8.8.8''"
proof -
  let ?env = "[''ALLOWED_IPS'' \<mapsto> ''10.0.0.0/99, not/a/net, 192.168.1.5/24'']"
  let ?one = "[''ALLOWED_IPS'' \<mapsto> ''not/a/net'']"
  have good: "allowed_loop ipv4 (normalize_localhost ''192.168.1.77'') [''192.168.1.5/24'']"
    by (simp add: normalize_localhost_def ipv4_def ipv4_address_examples ipv4_network_examples)
  have bad: "CHR ''/'' \<in> set ''not/a/net'' \<and> ip_network ipv4 ''not/a/net'' = None"
    by (simp add: ipv4_def ipv4_network_examples)
  have l: "get_allowed_ips ?env = [''10.0.0.0/99''] @ ''not/a/net'' # [''192.168.1.5/24'']"
    by (simp add: get_allowed_ips_examples)
  have l': "get_allowed_ips ?env = [''10.0.0.0/99'', ''not/a/net''] @ ''192.168.1.5/24'' # []"
    by (simp add: get_allowed_ips_examples)
  have o: "get_allowed_ips ?one = [''not/a/net'']"
    by (simp add: get_allowed_ips_def getenv_def py_strip_def is_space_def)
  have e: "get_allowed_ips Map.empty = []"
    by (simp add: get_allowed_ips_def getenv_def)
  have rest: "\<not> allowed_loop ipv4 (normalize_localhost ''8.8.8.8'') ([''10.0.0.0/99''] @ [''192.168.1.5/24''])"
    by (simp add: normalize_localhost_def ipv4_def ipv4_address_examples ipv4_network_examples)
  have no: "\<not> verify_ip_address ipv4 ?env ''8.8.8.8''"
    using is_allowed_contract [where L = ipv4 and env = ?env and c = "''8.8.8.8''"
            and bad = "''not/a/net''" and pre = "[''10.0.0.0/99'']" and post = "[''192.168.1.5/24'']"
            and good = "''192.168.1.5/24''"] l bad rest
    by (auto simp del: allowed_loop.simps)
  have yes: "verify_ip_address ipv4 ?env ''192.168.1.77''"
    using is_allowed_contract [where L = ipv4 and env = ?env and c = "''192.168.1.77''"
            and bad = "''192.168.1.5/24''" and pre = "[''10.0.0.0/99'', ''not/a/net'']" and post = "[]"
            and good = "''192.168.1.5/24''"] l' good
    by (auto simp del: allowed_loop.simps)
  have alone: "\<not> verify_ip_address ipv4 ?one ''192.168.1.77''"
    using is_allowed_contract [where L = ipv4 and env = ?one and c = "''192.168.1.77''"
            and bad = "''not/a/net''" and pre = "[]" and post = "[]" and good = "''not/a/net''"] o bad
    by (auto simp del: allowed_loop.simps)
  have nm: "\<not> matches ipv4 ''192.168.1.77'' ''not/a/net''"
    using is_allowed_contract [where L = ipv4 and env = ?env and c = "''192.168.1.77''"
            and bad = "''not/a/net''" and pre = "[]" and post = "[]" and good = "''not/a/net''"] bad
    by (auto simp del: allowed_loop.simps)
  have open_mode: "verify_ip_address ipv4 Map.empty ''8.8.8.8''"
    using is_allowed_contract [where L = ipv4 and env = Map.empty and c = "''8.8.8.8''"
            and bad = "''not/a/net''" and pre = "[]" and post = "[]" and good = "''not/a/net''"] e
    by (auto simp del: allowed_loop.simps)
  from l bad nm good yes no o alone open_mode show ?thesis
    by (auto simp del: allowed_loop.simps)
qed

text \<open>
  C7 as written asks for an entry that matches the candidate. For the candidate
  \<open>localhost\<close> and the allowlist \<open>10.0.0.0/8,127.0.0.0/8\<close> no entry matches the
  candidate in the sense of the matcher's contract (\<open>localhost\<close> is not an address), yet
  the check answers true, because the candidate is normalised first.
\<close>

theorem is_allowed_localhost_cidr_counterexample:
  "get_allowed_ips [''ALLOWED_IPS'' \<mapsto> ''10.0.0.0/8,127.0.0.0/8''] = [''10.0.0.0/8'', ''127.0.0.0/8'']
   \<and> verify_ip_address ipv4 [''ALLOWED_IPS'' \<mapsto> ''10.0.0.0/8,127.0.0.0/8''] ''localhost''
   \<and> \<not> matches ipv4 ''localhost'' ''10.0.0.0/8''
   \<and> \<not> matches ipv4 ''localhost'' ''127.0.0.0/8''"
proof -
  have allow: "get_allowed_ips [''ALLOWED_IPS'' \<mapsto> ''10.0.0.0/8,127.0.0.0/8'']
      = [''10.0.0.0/8'', ''127.0.0.0/8'']"
    by (simp add: get_allowed_ips_def getenv_def py_strip_def is_space_def)
  have ten: "ipv4_network ''10.0.0.0/8'' = Some (167772160, 4278190080)"
    by (simp add: ipv4_network_def ipv4_address_def parse_octet_def is_ascii_digit_def
          decimal_def prefix_from_prefix_string_def Let_def mask_eq_exp_minus_1)
  show ?thesis
    by (simp add: allow verify_ip_address_def matches_def normalize_localhost_def ipv4_def
          ipv4_address_examples ipv4_network_examples ten)
qed

section \<open>The documentation middleware against the gate\<close>

text \<open>
  Claim C2, as amended. On a documentation path the middleware lets a request through
  exactly when the IP stage of the gate, \<open>verify_access\<close>, grants it; the middleware
  does not look at the API key, so it agrees with the whole gate for the requests that
  pass \<open>verify_api_key\<close>.
\<close>

theorem docs_middleware_ip_stage:
  assumes "list_ex (\<lambda>path. startswith (url_path req) path) docs_paths"
  shows "((fst (dispatch L env req) = Call_next) = (fst (verify_access L env req k) = Inr k))
         \<and> (verify_api_key env (headers req ''X-API-Key'') = Inr k \<longrightarrow>
              (fst (dispatch L env req) = Call_next) = (fst (access_gate L env req) = Inr k))"
proof -
  have ip: "(fst (dispatch L env req) = Call_next) = (fst (verify_access L env req k) = Inr k)"
    using assms matches_localhost [of "get_client_ip req" L]
    by (auto simp: dispatch_def verify_access_on_client_ip Let_def verify_ip_address_iff)
  then show ?thesis by (simp add: access_gate_def)
qed

theorem docs_middleware_ip_stage_witness:
  "list_ex (\<lambda>path. startswith ''/docs'' path) docs_paths
   \<and> fst (dispatch ipv4 [''ALLOWED_IPS'' \<mapsto> ''10.1.0.0/16'']
          \<lparr>client = Some ''10.1.2.3'', headers = Map.empty, url_path = ''/docs''\<rparr>) = Call_next
   \<and> fst (verify_access ipv4 [''ALLOWED_IPS'' \<mapsto> ''10.1.0.0/16'']
          \<lparr>client = Some ''10.1.2.3'', headers = Map.empty, url_path = ''/docs''\<rparr> ''no-key-required'')
       = Inr ''no-key-required''"
proof -
  let ?env = "[''ALLOWED_IPS'' \<mapsto> ''10.1.0.0/16'']"
  let ?req = "\<lparr>client = Some ''10.1.2.3'', headers = Map.empty, url_path = ''/docs''\<rparr>"
  have docs: "list_ex (\<lambda>path. startswith (url_path ?req) path) docs_paths"
    by (simp add: docs_paths_def startswith_def)
  have allow: "get_allowed_ips ?env = [''10.1.0.0/16'']"
    by (simp add: get_allowed_ips_def getenv_def py_strip_def is_space_def)
  have a: "ipv4_address ''10.1.2.3'' = Some 167838211"
    by (simp add: ipv4_address_def parse_octet_def is_ascii_digit_def decimal_def)
  have n: "ipv4_network ''10.1.0.0/16'' = Some (167837696, 4294901760)"
    by (simp add: ipv4_network_def ipv4_address_def parse_octet_def is_ascii_digit_def decimal_def
          prefix_from_prefix_string_def Let_def mask_eq_exp_minus_1)
  have "verify_ip_address ipv4 ?env ''10.1.2.3''"
    by (simp add: verify_ip_address_def allow normalize_localhost_def ipv4_def a n)
  then have "fst (verify_access ipv4 ?env ?req ''no-key-required'') = Inr ''no-key-required''"
    by (simp add: verify_access_on_client_ip get_client_ip_def)
  with docs docs_middleware_ip_stage [OF docs, of ipv4 ?env "''no-key-required''"]
  show ?thesis by simp
qed

text \<open>
  C2 as written fails where a credential is configured and the request presents none:
  the middleware serves the documentation, the gate answers 401.
\<close>

theorem docs_gate_counterexample:
  "fst (dispatch ipv4 [''API_KEY'' \<mapsto> ''s3cret'']
          \<lparr>client = Some ''203.0.113.7'', headers = Map.empty, url_path = ''/docs''\<rparr>) = Call_next
   \<and> fst (access_gate ipv4 [''API_KEY'' \<mapsto> ''s3cret'']
          \<lparr>client = Some ''203.0.113.7'', headers = Map.empty, url_path = ''/docs''\<rparr>)
       = Inl (HTTPException 401 ''API Key requerida. Proporciona la API Key en el header X-API-Key'')"
  by (simp add: dispatch_def docs_paths_def startswith_def get_allowed_ips_def getenv_def
        access_gate_def verify_api_key_def get_api_key_def)

section \<open>Requests the mail relay never completes\<close>

text \<open>
  Claim C8, as amended. A mail-send request with an empty recipients list never reaches
  \<open>send_email\<close> and causes no SMTP action. The gate runs first: when it denies, the
  response is its 401 or 403; when it grants, the request is rejected by schema
  validation with an error on \<open>recipients\<close>.
\<close>

theorem empty_recipients_never_sent:
  assumes "recipients raw = []"
  shows "(\<forall>ev\<in>set (snd (post_send_email X L env req raw)). ev \<noteq> Send_email \<and> \<not> is_smtp_event ev)
         \<and> (\<forall>e. fst (access_gate L env req) = Inl e \<longrightarrow>
               fst (post_send_email X L env req raw) = Inl (Http_error e))
         \<and> (\<forall>k. fst (access_gate L env req) = Inr k \<longrightarrow>
               (\<exists>errors. fst (post_send_email X L env req raw) = Inl (RequestValidationError errors)
                         \<and> ''recipients'' \<in> set errors))"
proof -
  from validate_empty_recipients [OF assms] obtain errors where
    v: "validate_email_request X raw = Inl errors" "''recipients'' \<in> set errors" by blast
  have quiet: "ev \<noteq> Send_email \<and> \<not> is_smtp_event ev"
    if "ev \<in> set (snd (access_gate L env req))" for ev
    using access_gate_events [OF that] by auto
  show ?thesis
  proof (cases "access_gate L env req")
    case (Pair r t)
    show ?thesis
    proof (cases r)
      case (Inl e)
      with Pair quiet show ?thesis by (simp add: post_send_email_def)
    next
      case (Inr k)
      with Pair quiet v show ?thesis by (simp add: post_send_email_def)
    qed
  qed
qed

theorem empty_recipients_never_sent_witness:
  "recipients \<lparr>subject = ''Hi'', body = ''Hello'', recipients = [], attachments = None,
               is_html = False\<rparr> = []
   \<and> fst (access_gate ipv4 Map.empty
            \<lparr>client = Some ''8.8.8.8'', headers = Map.empty, url_path = ''/send-email''\<rparr>)
       = Inr ''no-key-required''
   \<and> (\<exists>errors. fst (post_send_email demo ipv4 Map.empty
            \<lparr>client = Some ''8.8.8.8'', headers = Map.empty, url_path = ''/send-email''\<rparr>
            \<lparr>subject = ''Hi'', body = ''Hello'', recipients = [], attachments = None,
             is_html = False\<rparr>) = Inl (RequestValidationError errors)
          \<and> ''recipients'' \<in> set errors)"
proof -
  let ?req = "\<lparr>client = Some ''8.8.8.8'', headers = Map.empty, url_path = ''/send-email''\<rparr>"
  let ?raw = "\<lparr>subject = ''Hi'', body = ''Hello'', recipients = [], attachments = None,
               is_html = False\<rparr>"
  have r: "recipients ?raw = []" by simp
  have g: "fst (access_gate ipv4 Map.empty ?req) = Inr ''no-key-required''"
    by (simp add: access_gate_def verify_api_key_def get_api_key_def verify_access_on_client_ip
          get_allowed_ips_def getenv_def verify_ip_address_def)
  from empty_recipients_never_sent [OF r, of demo ipv4 Map.empty ?req] g r
  show ?thesis by simp
qed

text \<open>
  C8 as written has the schema rejection come before the gate. With an allowlist that
  excludes the client, the request with no recipients is answered 403 by the gate, which
  did call the matcher; no validation error is reported.
\<close>

theorem empty_recipients_gate_first_counterexample:
  "recipients \<lparr>subject = ''Hi'', body = ''Hello'', recipients = [], attachments = None,
               is_html = False\<rparr> = []
   \<and> post_send_email demo ipv4 [''ALLOWED_IPS'' \<mapsto> ''10.0.0.1'']
        \<lparr>client = Some ''203.0.113.7'', headers = Map.empty, url_path = ''/send-email''\<rparr>
        \<lparr>subject = ''Hi'', body = ''Hello'', recipients = [], attachments = None, is_html = False\<rparr>
       = (Inl (Http_error (HTTPException 403 (forbidden_detail ''203.0.113.7''))),
          [Verify_ip_address ''203.0.113.7''])"
proof -
  have allow: "get_allowed_ips [''ALLOWED_IPS'' \<mapsto> ''10.0.0.1''] = [''10.0.0.1'']"
    by (simp add: get_allowed_ips_def getenv_def py_strip_def is_space_def)
  show ?thesis
    by (simp add: post_send_email_def access_gate_def verify_api_key_def get_api_key_def
          verify_access_on_client_ip get_client_ip_def allow is_private_prefix_def startswith_def
          verify_ip_address_def normalize_localhost_def)
qed




end
